theory Spec2Isabelle
  imports Main "HOL-Library.Char_ord" "HOL-Library.List_Lexorder" "HOL-Library.Multiset"
begin

section \<open>Python values and built-ins used by app.py\<close>

text \<open>
  Text is modelled as \<^typ>\<open>string\<close>: a list of characters with code points below 256,
  ordered by code point (\<open>Char_ord\<close>) and, as lists, lexicographically (\<open>List_Lexorder\<close>),
  which is how Python compares \<open>str\<close> values.  Exceptions are values of \<open>pyerr\<close>; a
  computation that may raise returns \<open>pyerr + 'a\<close>, with \<open>Inl\<close> for the exception.
\<close>

datatype pyerr =
    ValueError string
  | OverflowError
  | IntegrityError
  | StorageError string
  | OperationalError string
  | KeyError
  | TypeError
  | OSError

text \<open>\<open>str.isspace\<close> on one character, for code points below 256.\<close>

definition py_isspace :: "char \<Rightarrow> bool" where
  "py_isspace c =
     (let n = (of_char c :: nat)
      in (9 \<le> n \<and> n \<le> 13) \<or> (28 \<le> n \<and> n \<le> 32) \<or> n = 133 \<or> n = 160)"

text \<open>\<open>s.strip()\<close>: drop leading and trailing whitespace.\<close>

definition py_strip :: "string \<Rightarrow> string" where
  "py_strip s = rev (dropWhile py_isspace (rev (dropWhile py_isspace s)))"

definition is_digit :: "char \<Rightarrow> bool" where
  "is_digit c = (let n = (of_char c :: nat) in 48 \<le> n \<and> n \<le> 57)"

definition digit_val :: "char \<Rightarrow> int" where
  "digit_val c = int (of_char c) - 48"

text \<open>
  The digits of a base-10 literal after its first digit: digits, with single underscores
  allowed between two digits.
\<close>

fun py_digits :: "int \<Rightarrow> string \<Rightarrow> int option" where
  "py_digits acc [] = Some acc"
| "py_digits acc (c # cs) =
     (if is_digit c then py_digits (10 * acc + digit_val c) cs
      else if c = CHR ''_'' then
        (case cs of
           [] \<Rightarrow> None
         | d # ds \<Rightarrow> if is_digit d then py_digits (10 * acc + digit_val d) ds else None)
      else None)"

definition py_unsigned :: "string \<Rightarrow> int option" where
  "py_unsigned s =
     (case s of
        [] \<Rightarrow> None
      | c # cs \<Rightarrow> if is_digit c then py_digits (digit_val c) cs else None)"

text \<open>
  The whitespace that \<open>int()\<close> skips around a literal: the ASCII characters 9 to 13
  and 32 and, of the other code points below 256, the spaces 133 and 160.  The separators
  28 to 31, which \<open>str.strip\<close> removes, are not skipped.
\<close>

definition int_isspace :: "char \<Rightarrow> bool" where
  "int_isspace c =
     (let n = (of_char c :: nat)
      in (9 \<le> n \<and> n \<le> 13) \<or> n = 32 \<or> n = 133 \<or> n = 160)"

text \<open>The default limit on the number of digits of a literal (\<open>sys.int_info\<close>).\<close>

definition int_max_str_digits :: nat where
  "int_max_str_digits = 4300"

text \<open>
  \<open>int(s)\<close> for a \<open>str\<close>: whitespace around the literal is skipped, one sign is
  allowed, the digits follow, and a literal of more than 4300 digits is refused.  Every
  failure raises \<open>ValueError\<close> (which carries the literal).
\<close>

definition py_int :: "string \<Rightarrow> pyerr + int" where
  "py_int s =
     (let t = rev (dropWhile int_isspace (rev (dropWhile int_isspace s)));
          r = (case t of
                 [] \<Rightarrow> None
               | c # cs \<Rightarrow>
                   if c = CHR ''+'' then py_unsigned cs
                   else if c = CHR ''-'' then map_option uminus (py_unsigned cs)
                   else py_unsigned t)
      in case r of
           None \<Rightarrow> Inl (ValueError s)
         | Some n \<Rightarrow>
             if int_max_str_digits < length (filter is_digit t) then Inl (ValueError s)
             else Inr n)"

section \<open>Storage: the members and messages tables\<close>

text \<open>
  A column value is \<open>NULL\<close>, text or an integer.  The dictionaries handed to
  \<open>insert_member\<close> and \<open>insert_message\<close> map field names to such values; \<open>data.get(k)\<close>
  is \<open>None\<close> (stored as \<open>NULL\<close>) for a missing key.
\<close>

datatype sqlval = SqlNull | SqlText string | SqlInt int

definition dict_get :: "(string \<rightharpoonup> sqlval) \<Rightarrow> string \<Rightarrow> sqlval" where
  "dict_get data k = (case data k of None \<Rightarrow> SqlNull | Some v \<Rightarrow> v)"

record member_row =
  member_id :: int
  member_name :: sqlval
  member_email :: sqlval
  member_phone :: sqlval
  member_category :: sqlval
  member_address :: sqlval
  member_age :: sqlval
  member_joined_at :: string

record message_row =
  message_id :: int
  message_name :: sqlval
  message_email :: sqlval
  message_subject :: sqlval
  message_message :: sqlval
  message_sent_at :: string

text \<open>
  The database file: for each table whether it exists, its rows and the largest id handed
  out so far (the \<open>sqlite_sequence\<close> entry kept for an \<open>AUTOINCREMENT\<close> key).
\<close>

record database =
  members_table :: bool
  messages_table :: bool
  members :: "member_row list"
  messages :: "message_row list"
  members_seq :: int
  messages_seq :: int

text \<open>The file that \<open>sqlite3.connect\<close> creates when there is none: no table.\<close>

definition empty_db :: database where
  "empty_db = \<lparr>members_table = False, messages_table = False,
               members = [], messages = [], members_seq = 0, messages_seq = 0\<rparr>"

text \<open>\<open>init_db\<close>: \<open>CREATE TABLE IF NOT EXISTS\<close> for both tables; rows are kept.\<close>

definition init_db :: "database \<Rightarrow> database" where
  "init_db d = d\<lparr>members_table := True, messages_table := True\<rparr>"

text \<open>
  What starting the program does to the database file.  Loading the module defines
  \<open>init_db\<close> and the \<open>__main__\<close> block reads the port and runs the application;
  nothing calls \<open>init_db\<close>, so the file is left as it was found.
\<close>

definition startup :: "database \<Rightarrow> database" where
  "startup d = d"

text \<open>
  \<open>INTEGER PRIMARY KEY AUTOINCREMENT\<close>: the new id is one more than the largest id
  that the table holds or has ever handed out; once the largest 64-bit id has been used
  there is no new id and the insert fails.
\<close>

definition max_rowid :: int where
  "max_rowid = 2 ^ 63 - 1"

definition next_rowid :: "int list \<Rightarrow> int \<Rightarrow> int option" where
  "next_rowid ids seq =
     (let m = fold max ids seq in if m < max_rowid then Some (m + 1) else None)"

text \<open>
  What the environment contributes to one request: the clock reading of
  \<open>datetime.utcnow().isoformat()\<close>, and the error, if any, that the SQLite engine raises while
  connecting, executing or committing (I/O error, locked file, exhausted id space).
\<close>

record env =
  now :: string
  storage_fault :: "string option"

definition sql_int_ok :: "sqlval \<Rightarrow> bool" where
  "sql_int_ok v =
     (case v of SqlInt n \<Rightarrow> - (2 ^ 63) \<le> n \<and> n < 2 ^ 63 | _ \<Rightarrow> True)"

text \<open>
  \<open>insert_member\<close>: one \<open>INSERT\<close>.  A missing table raises \<open>OperationalError\<close>;
  binding an integer outside the 64-bit range raises \<open>OverflowError\<close>; a \<open>NULL\<close> in
  a \<open>NOT NULL\<close> column raises \<open>IntegrityError\<close>; an exhausted id space raises
  \<open>OperationalError\<close>.  Nothing is written when an exception is raised.
\<close>

definition insert_member :: "env \<Rightarrow> (string \<rightharpoonup> sqlval) \<Rightarrow> database \<Rightarrow> pyerr + database" where
  "insert_member ev data d =
     (case storage_fault ev of
        Some m \<Rightarrow> Inl (StorageError m)
      | None \<Rightarrow>
          if \<not> members_table d then Inl (OperationalError ''no such table: members'')
          else if \<not> sql_int_ok (dict_get data ''age'') then Inl OverflowError
          else if dict_get data ''name'' = SqlNull \<or> dict_get data ''email'' = SqlNull
          then Inl IntegrityError
          else
            (case next_rowid (map member_id (members d)) (members_seq d) of
               None \<Rightarrow> Inl (OperationalError ''database or disk is full'')
             | Some i \<Rightarrow>
                 Inr (d\<lparr>members := members d @
                            [\<lparr>member_id = i,
                              member_name = dict_get data ''name'',
                              member_email = dict_get data ''email'',
                              member_phone = dict_get data ''phone'',
                              member_category = dict_get data ''category'',
                              member_address = dict_get data ''address'',
                              member_age = dict_get data ''age'',
                              member_joined_at = now ev\<rparr>],
                        members_seq := i\<rparr>)))"

definition insert_message :: "env \<Rightarrow> (string \<rightharpoonup> sqlval) \<Rightarrow> database \<Rightarrow> pyerr + database" where
  "insert_message ev data d =
     (case storage_fault ev of
        Some m \<Rightarrow> Inl (StorageError m)
      | None \<Rightarrow>
          if \<not> messages_table d then Inl (OperationalError ''no such table: messages'')
          else if dict_get data ''name'' = SqlNull \<or> dict_get data ''email'' = SqlNull
          then Inl IntegrityError
          else
            (case next_rowid (map message_id (messages d)) (messages_seq d) of
               None \<Rightarrow> Inl (OperationalError ''database or disk is full'')
             | Some i \<Rightarrow>
                 Inr (d\<lparr>messages := messages d @
                            [\<lparr>message_id = i,
                              message_name = dict_get data ''name'',
                              message_email = dict_get data ''email'',
                              message_subject = dict_get data ''subject'',
                              message_message = dict_get data ''message'',
                              message_sent_at = now ev\<rparr>],
                        messages_seq := i\<rparr>)))"

section \<open>Requests, responses and the form handlers\<close>

text \<open>
  A flashed message is its text, or a fixed prefix followed by the text of an exception
  (the f-string \<open>f"...: {e}"\<close>), together with its category.
\<close>

datatype flash_msg = Text string | TextWithError string pyerr

record app_state =
  db :: database
  flashes :: "(flash_msg \<times> string) list"

definition flash :: "flash_msg \<Rightarrow> string \<Rightarrow> app_state \<Rightarrow> app_state" where
  "flash m category st = st\<lparr>flashes := flashes st @ [(m, category)]\<rparr>"

record request =
  req_method :: string
  req_form :: "string \<rightharpoonup> string"

text \<open>\<open>form.get(k).strip() if form.get(k) else None\<close>\<close>

definition stripped_field :: "(string \<rightharpoonup> string) \<Rightarrow> string \<Rightarrow> string option" where
  "stripped_field form k =
     (case form k of
        None \<Rightarrow> None
      | Some s \<Rightarrow> if s \<noteq> [] then Some (py_strip s) else None)"

text \<open>Python truthiness of an optional string: \<open>None\<close> and \<open>""\<close> are false.\<close>

definition truthy :: "string option \<Rightarrow> bool" where
  "truthy v = (case v of None \<Rightarrow> False | Some s \<Rightarrow> s \<noteq> [])"

definition opt_text :: "string option \<Rightarrow> sqlval" where
  "opt_text v = (case v of None \<Rightarrow> SqlNull | Some s \<Rightarrow> SqlText s)"

text \<open>\<open>int(form.get("age")) if form.get("age") else None\<close>\<close>

definition form_age :: "(string \<rightharpoonup> string) \<Rightarrow> pyerr + sqlval" where
  "form_age form =
     (if truthy (form ''age'') then
        (case py_int (the (form ''age'')) of Inl e \<Rightarrow> Inl e | Inr n \<Rightarrow> Inr (SqlInt n))
      else Inr SqlNull)"

text \<open>
  JSON values as \<open>json.load\<close> returns them: \<open>None\<close>, \<open>bool\<close>, \<open>int\<close>, \<open>str\<close>, \<open>list\<close>
  and \<open>dict\<close> (its items in order, one pair per key).  Floating-point numbers are left out.
\<close>

datatype json =
    JNull
  | JBool bool
  | JInt int
  | JStr string
  | JArr "json list"
  | JObj "(string \<times> json) list"

text \<open>
  A news post.  Its \<open>summary\<close> and \<open>content\<close> are running text that no handler
  inspects; they are left out of the record.
\<close>

record news_post =
  title :: string
  date :: string

text \<open>
  A response: a redirect to an endpoint, a template rendered with its keyword arguments,
  a JSON body, or the failure of the request when an exception escapes the handler.
\<close>

datatype tval =
    TText string
  | TNews "news_post list"
  | TJson json
  | TUrls "string list"

datatype response =
    Redirect string
  | Render string "(string \<times> tval) list"
  | JsonResponse json
  | ServerError pyerr

definition membership :: "env \<Rightarrow> request \<Rightarrow> app_state \<Rightarrow> response \<times> app_state" where
  "membership ev req st =
     (if req_method req = ''POST'' then
        let form = req_form req;
            name = stripped_field form ''name'';
            email = stripped_field form ''email'';
            st' =
              (if \<not> truthy name \<or> \<not> truthy email
               then flash (Text ''Name and email are required.'') ''danger'' st
               else
                 (case form_age form of
                    Inl e \<Rightarrow> flash (TextWithError ''Error saving your registration: '' e) ''danger'' st
                  | Inr age \<Rightarrow>
                      (case insert_member ev
                              [''name'' \<mapsto> opt_text name,
                               ''email'' \<mapsto> opt_text email,
                               ''phone'' \<mapsto> opt_text (form ''phone''),
                               ''category'' \<mapsto> opt_text (form ''category''),
                               ''address'' \<mapsto> opt_text (form ''address''),
                               ''age'' \<mapsto> age]
                              (db st) of
                         Inl e \<Rightarrow>
                           flash (TextWithError ''Error saving your registration: '' e) ''danger'' st
                       | Inr d \<Rightarrow>
                           flash (Text ''Thank you for registering! We will contact you soon.'')
                             ''success'' (st\<lparr>db := d\<rparr>))))
        in (Redirect ''membership'', st')
      else (Render ''membership.html'' [(''title'', TText ''Membership'')], st))"

definition contact :: "env \<Rightarrow> request \<Rightarrow> app_state \<Rightarrow> response \<times> app_state" where
  "contact ev req st =
     (if req_method req = ''POST'' then
        let form = req_form req;
            name = stripped_field form ''name'';
            email = stripped_field form ''email'';
            st' =
              (if \<not> truthy name \<or> \<not> truthy email
               then flash (Text ''Name and email are required.'') ''danger'' st
               else
                 (case insert_message ev
                         [''name'' \<mapsto> opt_text name,
                          ''email'' \<mapsto> opt_text email,
                          ''subject'' \<mapsto> opt_text (form ''subject''),
                          ''message'' \<mapsto> opt_text (form ''message'')]
                         (db st) of
                    Inl e \<Rightarrow>
                      flash (TextWithError ''Error sending your message: '' e) ''danger'' st
                  | Inr d \<Rightarrow>
                      flash (Text ''Thank you for contacting us. We will respond shortly.'')
                        ''success'' (st\<lparr>db := d\<rparr>)))
        in (Redirect ''contact'', st')
      else (Render ''contact.html'' [(''title'', TText ''Contact'')], st))"

text \<open>
  A field is blank when it is absent from the form or empty once surrounding whitespace is
  removed.
\<close>

definition blank_field :: "(string \<rightharpoonup> string) \<Rightarrow> string \<Rightarrow> bool" where
  "blank_field form k = (case form k of None \<Rightarrow> True | Some s \<Rightarrow> py_strip s = [])"

section \<open>Content sources\<close>

definition SAMPLE_NEWS :: "news_post list" where
  "SAMPLE_NEWS =
     [\<lparr>title = ''IFS Invitational Youth Tournament showcases rising stars'',
       date = ''2025-08-02''\<rparr>,
      \<lparr>title = ''Copperbelt Open finals produce new champions'',
       date = ''2025-08-04''\<rparr>,
      \<lparr>title = ''Ladies trials set stage for 2024 All Africa Games'',
       date = ''2023-12-27''\<rparr>,
      \<lparr>title = ''MIKA Hotels invests in seventh international championship'',
       date = ''2023-10-20''\<rparr>,
      \<lparr>title = ''Junior champions crowned at Mike Mambwe Memorial'',
       date = ''2023-09-20''\<rparr>,
      \<lparr>title = ''Association recognised for successful 2024 AGM'',
       date = ''2024-12-16''\<rparr>]"

definition DEFAULT_EVENTS :: json where
  "DEFAULT_EVENTS =
     JArr
      [JObj [(''title'', JStr ''National Championships''),
             (''start'', JStr ''2025-08-20''),
             (''end'', JStr ''2025-08-24''),
             (''location'', JStr ''Lusaka National Tennis Centre''),
             (''category'', JStr ''ZTA SENIOR''),
             (''description'', JStr ''The annual national championships featuring singles and doubles events for men and women.'')],
       JObj [(''title'', JStr ''Youth Development Camp''),
             (''start'', JStr ''2025-09-15''),
             (''end'', JStr ''2025-09-19''),
             (''location'', JStr ''Copperbelt Tennis Academy, Ndola''),
             (''category'', JStr ''TRAINING''),
             (''description'', JStr ''A training camp for junior players focusing on skill development, fitness and mental preparation.'')],
       JObj [(''title'', JStr ''Coaches Certification Course''),
             (''start'', JStr ''2025-10-05''),
             (''end'', JStr ''2025-10-08''),
             (''location'', JStr ''Livingstone Sports Complex''),
             (''category'', JStr ''TRAINING''),
             (''description'', JStr ''An ITF accredited certification course for tennis coaches seeking to upgrade their qualifications.'')]]"

text \<open>
  The module-level load of \<open>data/events.json\<close>.  Its inputs are what the file system and
  the parser answer: whether \<open>os.path.exists\<close> holds, and the outcome of opening the file
  and running \<open>json.load\<close> on it (an exception or the parsed value).
\<close>

definition EVENTS :: "bool \<Rightarrow> pyerr + json \<Rightarrow> json" where
  "EVENTS file_exists loaded =
     (if file_exists then
        (case loaded of Inr v \<Rightarrow> v | Inl _ \<Rightarrow> DEFAULT_EVENTS)
      else DEFAULT_EVENTS)"

definition api_events :: "json \<Rightarrow> response" where
  "api_events evs = JsonResponse evs"

section \<open>The home page\<close>

text \<open>Numbers for comparison: \<open>bool\<close> is a subclass of \<open>int\<close>.\<close>

fun py_num :: "json \<Rightarrow> int option" where
  "py_num (JBool b) = Some (if b then 1 else 0)"
| "py_num (JInt n) = Some n"
| "py_num _ = None"

text \<open>Python's \<open>==\<close> on JSON values; two dicts are equal when they hold the same items.\<close>

fun py_eq :: "json \<Rightarrow> json \<Rightarrow> bool"
  and py_eq_list :: "json list \<Rightarrow> json list \<Rightarrow> bool"
  and py_items_in :: "(string \<times> json) list \<Rightarrow> (string \<times> json) list \<Rightarrow> bool"
where
  "py_eq JNull b = (b = JNull)"
| "py_eq (JBool x) b = (py_num b = Some (if x then 1 else 0))"
| "py_eq (JInt n) b = (py_num b = Some n)"
| "py_eq (JStr s) b = (b = JStr s)"
| "py_eq (JArr xs) b = (case b of JArr ys \<Rightarrow> py_eq_list xs ys | _ \<Rightarrow> False)"
| "py_eq (JObj kvs) b =
     (case b of
        JObj kvs' \<Rightarrow> py_items_in kvs kvs' \<and> set (map fst kvs') \<subseteq> set (map fst kvs)
      | _ \<Rightarrow> False)"
| "py_eq_list [] ys = (ys = [])"
| "py_eq_list (x # xs) ys =
     (case ys of [] \<Rightarrow> False | y # ys' \<Rightarrow> py_eq x y \<and> py_eq_list xs ys')"
| "py_items_in [] kvs' = True"
| "py_items_in (kv # kvs) kvs' =
     ((case map_of kvs' (fst kv) of None \<Rightarrow> False | Some y \<Rightarrow> py_eq (snd kv) y)
      \<and> py_items_in kvs kvs')"

text \<open>
  Python's \<open><\<close> on JSON values: defined between two strings, between two numbers and
  between two lists (lexicographically, by the first pair of unequal elements); every other
  pair raises \<open>TypeError\<close>.
\<close>

fun py_lt :: "json \<Rightarrow> json \<Rightarrow> pyerr + bool"
  and py_lt_list :: "json list \<Rightarrow> json list \<Rightarrow> pyerr + bool"
where
  "py_lt (JStr a) b = (case b of JStr b' \<Rightarrow> Inr (a < b') | _ \<Rightarrow> Inl TypeError)"
| "py_lt (JArr xs) b = (case b of JArr ys \<Rightarrow> py_lt_list xs ys | _ \<Rightarrow> Inl TypeError)"
| "py_lt (JBool x) b =
     (case py_num b of Some n \<Rightarrow> Inr ((if x then 1 else 0) < n) | None \<Rightarrow> Inl TypeError)"
| "py_lt (JInt m) b = (case py_num b of Some n \<Rightarrow> Inr (m < n) | None \<Rightarrow> Inl TypeError)"
| "py_lt JNull b = Inl TypeError"
| "py_lt (JObj kvs) b = Inl TypeError"
| "py_lt_list [] ys = Inr (ys \<noteq> [])"
| "py_lt_list (x # xs) ys =
     (case ys of
        [] \<Rightarrow> Inr False
      | y # ys' \<Rightarrow> if py_eq x y then py_lt_list xs ys' else py_lt x y)"











definition news_preview :: "news_post list" where
  "news_preview = take 3 SAMPLE_NEWS"








section \<open>The gallery pages\<close>

text \<open>
  \<open>str.lower\<close> and the letter classes, for code points below 256: the upper-case letters
  are A to Z and the accented capitals 192 to 222 (without the multiplication sign 215).
\<close>

definition is_upper_letter :: "char \<Rightarrow> bool" where
  "is_upper_letter c =
     (let n = (of_char c :: nat)
      in (65 \<le> n \<and> n \<le> 90) \<or> (192 \<le> n \<and> n \<le> 222 \<and> n \<noteq> 215))"

definition is_lower_letter :: "char \<Rightarrow> bool" where
  "is_lower_letter c =
     (let n = (of_char c :: nat)
      in (97 \<le> n \<and> n \<le> 122) \<or> n = 170 \<or> n = 181 \<or> n = 186
         \<or> (223 \<le> n \<and> n \<le> 255 \<and> n \<noteq> 247))"

definition py_lower_char :: "char \<Rightarrow> char" where
  "py_lower_char c = (if is_upper_letter c then char_of ((of_char c :: nat) + 32) else c)"

definition py_lower :: "string \<Rightarrow> string" where
  "py_lower s = map py_lower_char s"

definition py_endswith :: "string \<Rightarrow> string \<Rightarrow> bool" where
  "py_endswith s suf = (length suf \<le> length s \<and> drop (length s - length suf) s = suf)"

definition image_exts :: "string list" where
  "image_exts = [''.png'', ''.jpg'', ''.jpeg'', ''.gif'']"

definition is_image :: "string \<Rightarrow> bool" where
  "is_image f = list_ex (py_endswith (py_lower f)) image_exts"

text \<open>
  The \<open>try\<close> block of a gallery handler.  Its input is the outcome of \<open>os.listdir\<close>: an
  exception, or the names in the directory.
\<close>

definition gallery_files :: "pyerr + string list \<Rightarrow> string list" where
  "gallery_files listing =
     (case listing of Inl _ \<Rightarrow> [] | Inr names \<Rightarrow> sort (filter is_image names))"

text \<open>
  The handlers take the framework's \<open>url_for('static', filename=...)\<close> as the function
  \<open>static_url\<close>.
\<close>

definition veterans_gallery :: "(string \<Rightarrow> string) \<Rightarrow> pyerr + string list \<Rightarrow> response" where
  "veterans_gallery static_url listing =
     Render ''veterans.html''
       [(''title'', TText ''Veterans''),
        (''images'', TUrls (map (\<lambda>fname. static_url (''images/veterans/'' @ fname))
                              (gallery_files listing)))]"

definition juniors_gallery :: "(string \<Rightarrow> string) \<Rightarrow> pyerr + string list \<Rightarrow> response" where
  "juniors_gallery static_url listing =
     Render ''juniors.html''
       [(''title'', TText ''Juniors''),
        (''images'', TUrls (map (\<lambda>fname. static_url (''images/juniors/'' @ fname))
                              (gallery_files listing)))]"

definition seniors_gallery :: "(string \<Rightarrow> string) \<Rightarrow> pyerr + string list \<Rightarrow> response" where
  "seniors_gallery static_url listing =
     Render ''seniors.html''
       [(''title'', TText ''Seniors''),
        (''images'', TUrls (map (\<lambda>fname. static_url (''images/seniors/'' @ fname))
                              (gallery_files listing)))]"

text \<open>The letters A to Z.\<close>

definition ascii_upper :: "char \<Rightarrow> bool" where
  "ascii_upper c = (let n = (of_char c :: nat) in 65 \<le> n \<and> n \<le> 90)"

text \<open>
  Two characters are the same letter up to case when they are equal or when the first is
  one of A to Z and the second its lower-case form.  A name ends in an extension,
  whatever the case of its letters, when its last characters match the extension in this
  sense, one by one.
\<close>

definition same_letter :: "char \<Rightarrow> char \<Rightarrow> bool" where
  "same_letter c d = (c = d \<or> (ascii_upper c \<and> (of_char c :: nat) + 32 = of_char d))"

definition ends_with_ci :: "string \<Rightarrow> string \<Rightarrow> bool" where
  "ends_with_ci f ext =
     (length ext \<le> length f
      \<and> list_all2 same_letter (drop (length f - length ext) f) ext)"

text \<open>A stored value is a non-empty text.\<close>

definition nonempty_text :: "sqlval \<Rightarrow> bool" where
  "nonempty_text v = (case v of SqlText s \<Rightarrow> s \<noteq> [] | _ \<Rightarrow> False)"

text \<open>
  The wording "the \<open>n\<close> most recent news items": the posts in descending order of date,
  cut after \<open>n\<close>.
\<close>

definition most_recent :: "nat \<Rightarrow> news_post list \<Rightarrow> news_post list" where
  "most_recent n posts = take n (rev (sort_key date posts))"




section \<open>Properties of the form handlers\<close>

lemma py_strip_Nil: "py_strip [] = []"
  by (simp add: py_strip_def)

lemma blank_field_not_truthy:
  "blank_field form k \<Longrightarrow> \<not> truthy (stripped_field form k)"
  by (auto simp: blank_field_def truthy_def stripped_field_def split: option.splits)

lemma not_truthy_blank_field:
  "\<not> truthy (stripped_field form k) \<Longrightarrow> blank_field form k"
  by (auto simp: blank_field_def truthy_def stripped_field_def py_strip_Nil
           split: option.splits if_splits)

lemma membership_post_blank:
  assumes "req_method req = ''POST''"
    and "blank_field (req_form req) ''name'' \<or> blank_field (req_form req) ''email''"
  shows "membership ev req st =
           (Redirect ''membership'', flash (Text ''Name and email are required.'') ''danger'' st)"
proof -
  from assms(2)
  have "\<not> truthy (stripped_field (req_form req) ''name'')
        \<or> \<not> truthy (stripped_field (req_form req) ''email'')"
    using blank_field_not_truthy by blast
  with assms(1) show ?thesis
    by (simp add: membership_def Let_def)
qed

lemma db_flash: "db (flash m c st) = db st"
  by (simp add: flash_def)

lemma flashes_flash: "flashes (flash m c st) = flashes st @ [(m, c)]"
  by (simp add: flash_def)

text \<open>
  C1.  A membership submission (a POST) whose name or email field is absent, or empty once
  whitespace is trimmed, is answered by the redirect with the validation message
  "Name and email are required." flashed in category "danger"; the database, and so the
  members table, is left exactly as it was: no Member row is written.
\<close>

theorem membership_blank_required_field:
  assumes "req_method req = ''POST''"
    and "blank_field (req_form req) ''name'' \<or> blank_field (req_form req) ''email''"
  shows "fst (membership ev req st) = Redirect ''membership''
         \<and> flashes (snd (membership ev req st)) =
             flashes st @ [(Text ''Name and email are required.'', ''danger'')]
         \<and> db (snd (membership ev req st)) = db st
         \<and> members (db (snd (membership ev req st))) = members (db st)"
  using membership_post_blank [OF assms] by (simp add: db_flash flashes_flash)

theorem membership_blank_required_field_witness:
  "req_method \<lparr>req_method = ''POST'',
               req_form = [''name'' \<mapsto> ''  '', ''email'' \<mapsto> ''jane@example.com'']\<rparr> = ''POST''
   \<and> blank_field [''name'' \<mapsto> ''  '', ''email'' \<mapsto> ''jane@example.com''] ''name''
   \<and> members (db (snd (membership \<lparr>now = ''2025-01-01T00:00:00'', storage_fault = None\<rparr>
        \<lparr>req_method = ''POST'',
         req_form = [''name'' \<mapsto> ''  '', ''email'' \<mapsto> ''jane@example.com'']\<rparr>
        \<lparr>db = init_db empty_db, flashes = []\<rparr>))) = []
   \<and> flashes (snd (membership \<lparr>now = ''2025-01-01T00:00:00'', storage_fault = None\<rparr>
        \<lparr>req_method = ''POST'',
         req_form = [''name'' \<mapsto> ''  '', ''email'' \<mapsto> ''jane@example.com'']\<rparr>
        \<lparr>db = init_db empty_db, flashes = []\<rparr>)) = [(Text ''Name and email are required.'', ''danger'')]"
  using membership_blank_required_field
    [of "\<lparr>req_method = ''POST'',
          req_form = [''name'' \<mapsto> ''  '', ''email'' \<mapsto> ''jane@example.com'']\<rparr>"
        "\<lparr>now = ''2025-01-01T00:00:00'', storage_fault = None\<rparr>"
        "\<lparr>db = init_db empty_db, flashes = []\<rparr>"]
  by (simp add: blank_field_def py_strip_def py_isspace_def init_db_def empty_db_def)

lemma membership_post_bad_age:
  assumes "req_method req = ''POST''"
    and "\<not> blank_field (req_form req) ''name''"
    and "\<not> blank_field (req_form req) ''email''"
    and "req_form req ''age'' = Some a" and "a \<noteq> []"
    and "py_int a = Inl e"
  shows "membership ev req st =
           (Redirect ''membership'',
            flash (TextWithError ''Error saving your registration: '' e) ''danger'' st)"
proof -
  have n: "truthy (stripped_field (req_form req) ''name'')"
    using assms(2) not_truthy_blank_field by blast
  have m: "truthy (stripped_field (req_form req) ''email'')"
    using assms(3) not_truthy_blank_field by blast
  have "form_age (req_form req) = Inl e"
    using assms(4,5,6) by (simp add: form_age_def truthy_def)
  with assms(1) n m show ?thesis
    by (simp add: membership_def Let_def)
qed

text \<open>
  C2.  A membership submission with a name and an email that are not blank, and a
  non-empty age value on which \<open>int()\<close> raises (such as "abc"), is answered normally by the
  redirect: the exception is caught, an error message is flashed in the category "danger"
  that validation errors use, and the database is unchanged, so no Member row is written.
  An empty age field counts as no age given, not as an age value.  An age such as "12"
  followed by the separator of code point 31 is among the values that do not parse.
\<close>

theorem membership_unparsable_age:
  assumes "req_method req = ''POST''"
    and "\<not> blank_field (req_form req) ''name''"
    and "\<not> blank_field (req_form req) ''email''"
    and "req_form req ''age'' = Some a" and "a \<noteq> []"
    and "py_int a = Inl e"
  shows "fst (membership ev req st) = Redirect ''membership''
         \<and> flashes (snd (membership ev req st)) =
             flashes st @ [(TextWithError ''Error saving your registration: '' e, ''danger'')]
         \<and> db (snd (membership ev req st)) = db st
         \<and> members (db (snd (membership ev req st))) = members (db st)"
  using membership_post_bad_age [OF assms] by (simp add: db_flash flashes_flash)

lemma py_int_abc: "py_int ''abc'' = Inl (ValueError ''abc'')"
  by (simp add: py_int_def int_isspace_def py_unsigned_def is_digit_def)

lemma py_int_separator:
  "py_int [CHR ''1'', CHR ''2'', CHR 0x1F] = Inl (ValueError [CHR ''1'', CHR ''2'', CHR 0x1F])"
  by (simp add: py_int_def int_isspace_def py_unsigned_def is_digit_def)

theorem membership_unparsable_age_witness:
  "py_int ''abc'' = Inl (ValueError ''abc'')
   \<and> py_int [CHR ''1'', CHR ''2'', CHR 0x1F] = Inl (ValueError [CHR ''1'', CHR ''2'', CHR 0x1F])
   \<and> members (db (snd (membership \<lparr>now = ''2025-01-01T00:00:00'', storage_fault = None\<rparr>
        \<lparr>req_method = ''POST'',
         req_form = [''name'' \<mapsto> ''Jane Doe'', ''email'' \<mapsto> ''jane@example.com'',
                     ''age'' \<mapsto> ''abc'']\<rparr>
        \<lparr>db = init_db empty_db, flashes = []\<rparr>))) = []
   \<and> flashes (snd (membership \<lparr>now = ''2025-01-01T00:00:00'', storage_fault = None\<rparr>
        \<lparr>req_method = ''POST'',
         req_form = [''name'' \<mapsto> ''Jane Doe'', ''email'' \<mapsto> ''jane@example.com'',
                     ''age'' \<mapsto> ''abc'']\<rparr>
        \<lparr>db = init_db empty_db, flashes = []\<rparr>)) =
       [(TextWithError ''Error saving your registration: '' (ValueError ''abc''), ''danger'')]
   \<and> members (db (snd (membership \<lparr>now = ''2025-01-01T00:00:00'', storage_fault = None\<rparr>
        \<lparr>req_method = ''POST'',
         req_form = [''name'' \<mapsto> ''Jane Doe'', ''email'' \<mapsto> ''jane@example.com'',
                     ''age'' \<mapsto> [CHR ''1'', CHR ''2'', CHR 0x1F]]\<rparr>
        \<lparr>db = init_db empty_db, flashes = []\<rparr>))) = []"
proof -
  let ?ev = "\<lparr>now = ''2025-01-01T00:00:00'', storage_fault = None\<rparr>"
  let ?st = "\<lparr>db = init_db empty_db, flashes = []\<rparr>"
  let ?r1 = "\<lparr>req_method = ''POST'',
              req_form = [''name'' \<mapsto> ''Jane Doe'', ''email'' \<mapsto> ''jane@example.com'',
                          ''age'' \<mapsto> ''abc'']\<rparr>"
  let ?r2 = "\<lparr>req_method = ''POST'',
              req_form = [''name'' \<mapsto> ''Jane Doe'', ''email'' \<mapsto> ''jane@example.com'',
                          ''age'' \<mapsto> [CHR ''1'', CHR ''2'', CHR 0x1F]]\<rparr>"
  have m: "req_method ?r1 = ''POST''" "req_method ?r2 = ''POST''"
    by simp_all
  have n: "\<not> blank_field (req_form ?r1) ''name''" "\<not> blank_field (req_form ?r1) ''email''"
      "\<not> blank_field (req_form ?r2) ''name''" "\<not> blank_field (req_form ?r2) ''email''"
    by (simp_all add: blank_field_def py_strip_def py_isspace_def)
  have a: "req_form ?r1 ''age'' = Some ''abc''" "''abc'' \<noteq> []"
      "req_form ?r2 ''age'' = Some [CHR ''1'', CHR ''2'', CHR 0x1F]"
      "[CHR ''1'', CHR ''2'', CHR 0x1F] \<noteq> []"
    by simp_all
  note t1 = membership_unparsable_age [OF m(1) n(1) n(2) a(1) a(2) py_int_abc, of ?ev ?st]
  note t2 = membership_unparsable_age [OF m(2) n(3) n(4) a(3) a(4) py_int_separator, of ?ev ?st]
  from t1 t2 py_int_abc py_int_separator show ?thesis
    by (simp add: init_db_def empty_db_def)
qed

section \<open>Identifiers and stored rows\<close>

lemma fold_max_ge_init: "(s::int) \<le> fold max xs s"
proof (induction xs arbitrary: s)
  case Nil
  show ?case by simp
next
  case (Cons x xs)
  have "s \<le> max x s" by simp
  also have "\<dots> \<le> fold max xs (max x s)" by (rule Cons.IH)
  finally show ?case by simp
qed

lemma fold_max_ge_mem: "x \<in> set xs \<Longrightarrow> (x::int) \<le> fold max xs s"
proof (induction xs arbitrary: s)
  case Nil
  then show ?case by simp
next
  case (Cons y ys)
  show ?case
  proof (cases "x = y")
    case True
    have "x \<le> max y s" using True by simp
    also have "\<dots> \<le> fold max ys (max y s)" by (rule fold_max_ge_init)
    finally show ?thesis by simp
  next
    case False
    with Cons.prems have "x \<in> set ys" by simp
    from Cons.IH [OF this] show ?thesis by simp
  qed
qed

lemma next_rowid_SomeD:
  assumes "next_rowid ids s = Some i"
  shows "s < i" and "\<forall>x\<in>set ids. x < i" and "i \<le> max_rowid"
proof -
  from assms have i: "i = fold max ids s + 1" and b: "fold max ids s < max_rowid"
    by (auto simp: next_rowid_def Let_def split: if_splits)
  show "s < i" using fold_max_ge_init [of s ids] i by simp
  show "\<forall>x\<in>set ids. x < i" using fold_max_ge_mem [of _ ids s] i by fastforce
  show "i \<le> max_rowid" using i b by simp
qed

lemma not_blank_fieldD:
  "\<not> blank_field form k \<Longrightarrow> \<exists>s. form k = Some s \<and> s \<noteq> [] \<and> py_strip s \<noteq> []"
  by (auto simp: blank_field_def py_strip_Nil split: option.splits)

lemma insert_message_rows:
  "insert_message ev data d = Inr d' \<Longrightarrow>
     \<exists>row. messages d' = messages d @ [row] \<and> message_name row = dict_get data ''name''
       \<and> message_email row = dict_get data ''email''"
  by (auto simp: insert_message_def split: option.splits if_splits)

lemma insert_member_rows:
  "insert_member ev data d = Inr d' \<Longrightarrow>
     \<exists>row. members d' = members d @ [row] \<and> member_name row = dict_get data ''name''
       \<and> member_email row = dict_get data ''email''"
  by (auto simp: insert_member_def split: option.splits if_splits)

lemma contact_new_rows:
  "\<exists>rows. messages (db (snd (contact ev req st))) = messages (db st) @ rows
     \<and> (\<forall>r\<in>set rows. nonempty_text (message_name r) \<and> nonempty_text (message_email r))"
proof (cases "req_method req = ''POST''
    \<and> truthy (stripped_field (req_form req) ''name'')
    \<and> truthy (stripped_field (req_form req) ''email'')")
  case True
  then obtain n m where nm: "stripped_field (req_form req) ''name'' = Some n" "n \<noteq> []"
      "stripped_field (req_form req) ''email'' = Some m" "m \<noteq> []"
    by (auto simp: truthy_def split: option.splits)
  let ?data = "[''name'' \<mapsto> opt_text (Some n), ''email'' \<mapsto> opt_text (Some m),
                ''subject'' \<mapsto> opt_text (req_form req ''subject''),
                ''message'' \<mapsto> opt_text (req_form req ''message'')]"
  show ?thesis
  proof (cases "insert_message ev ?data (db st)")
    case (Inl e)
    with True nm have "messages (db (snd (contact ev req st))) = messages (db st)"
      by (simp add: contact_def Let_def db_flash)
    then show ?thesis by simp
  next
    case (Inr d')
    from insert_message_rows [OF Inr] obtain row where
        row: "messages d' = messages (db st) @ [row]" "message_name row = SqlText n"
        "message_email row = SqlText m"
      by (auto simp: dict_get_def opt_text_def)
    from True nm Inr have "messages (db (snd (contact ev req st))) = messages d'"
      by (simp add: contact_def Let_def db_flash)
    with row nm(2,4) show ?thesis by (simp add: nonempty_text_def)
  qed
next
  case False
  then have "messages (db (snd (contact ev req st))) = messages (db st)"
    by (auto simp: contact_def Let_def db_flash)
  then show ?thesis by simp
qed

lemma membership_new_rows:
  "\<exists>rows. members (db (snd (membership ev req st))) = members (db st) @ rows
     \<and> (\<forall>r\<in>set rows. nonempty_text (member_name r) \<and> nonempty_text (member_email r))"
proof (cases "req_method req = ''POST''
    \<and> truthy (stripped_field (req_form req) ''name'')
    \<and> truthy (stripped_field (req_form req) ''email'')")
  case True
  then obtain n m where nm: "stripped_field (req_form req) ''name'' = Some n" "n \<noteq> []"
      "stripped_field (req_form req) ''email'' = Some m" "m \<noteq> []"
    by (auto simp: truthy_def split: option.splits)
  show ?thesis
  proof (cases "form_age (req_form req)")
    case (Inl e)
    with True have "members (db (snd (membership ev req st))) = members (db st)"
      by (simp add: membership_def Let_def db_flash)
    then show ?thesis by simp
  next
    case (Inr age)
    let ?data = "[''name'' \<mapsto> opt_text (Some n), ''email'' \<mapsto> opt_text (Some m),
                  ''phone'' \<mapsto> opt_text (req_form req ''phone''),
                  ''category'' \<mapsto> opt_text (req_form req ''category''),
                  ''address'' \<mapsto> opt_text (req_form req ''address''),
                  ''age'' \<mapsto> age]"
    show ?thesis
    proof (cases "insert_member ev ?data (db st)")
      case (Inl e)
      with True nm Inr have "members (db (snd (membership ev req st))) = members (db st)"
        by (simp add: membership_def Let_def db_flash)
      then show ?thesis by simp
    next
      case ins: (Inr d')
      from insert_member_rows [OF ins] obtain row where
          row: "members d' = members (db st) @ [row]" "member_name row = SqlText n"
          "member_email row = SqlText m"
        by (auto simp: dict_get_def opt_text_def)
      from True nm Inr ins have "members (db (snd (membership ev req st))) = members d'"
        by (simp add: membership_def Let_def db_flash)
      with row nm(2,4) show ?thesis by (simp add: nonempty_text_def)
    qed
  qed
next
  case False
  then have "members (db (snd (membership ev req st))) = members (db st)"
    by (auto simp: membership_def Let_def db_flash)
  then show ?thesis by simp
qed

lemma contact_post_valid:
  assumes "req_method req = ''POST''"
    and "\<not> blank_field (req_form req) ''name''"
    and "\<not> blank_field (req_form req) ''email''"
    and "storage_fault ev = None"
    and "messages_table (db st)"
    and "next_rowid (map message_id (messages (db st))) (messages_seq (db st)) = Some i"
  shows "\<exists>row. messages (db (snd (contact ev req st))) = messages (db st) @ [row]
          \<and> messages_seq (db (snd (contact ev req st))) = i
          \<and> message_id row = i
          \<and> (\<forall>m\<in>set (messages (db st)). message_id m < i)
          \<and> messages_seq (db st) < i"
proof -
  from assms(2) obtain n where n: "req_form req ''name'' = Some n" "n \<noteq> []" "py_strip n \<noteq> []"
    using not_blank_fieldD by blast
  from assms(3) obtain m where m: "req_form req ''email'' = Some m" "m \<noteq> []" "py_strip m \<noteq> []"
    using not_blank_fieldD by blast
  have "messages (db (snd (contact ev req st))) = messages (db st) @
      [\<lparr>message_id = i, message_name = SqlText (py_strip n),
        message_email = SqlText (py_strip m),
        message_subject = opt_text (req_form req ''subject''),
        message_message = opt_text (req_form req ''message''),
        message_sent_at = now ev\<rparr>]
      \<and> messages_seq (db (snd (contact ev req st))) = i"
    using assms(1,4,5,6) n m
    by (simp add: contact_def Let_def stripped_field_def truthy_def opt_text_def
        insert_message_def dict_get_def db_flash)
  with next_rowid_SomeD [OF assms(6)] show ?thesis by auto
qed

text \<open>
  C8.  The claim needs the messages table, which only \<open>init_db\<close> creates, and the
  program never calls \<open>init_db\<close>.  On a database without that table a valid contact
  submission, with the storage engine otherwise working, is answered by the redirect with
  the error "no such table: messages" flashed, and the database is unchanged: no
  ContactMessage row is written, so two submissions in a row leave no row at all.  Had
  \<open>init_db\<close> been run, the same two submissions would be stored with the ids 1 and 2.
\<close>

theorem contact_without_table:
  assumes "req_method req = ''POST''"
    and "\<not> blank_field (req_form req) ''name''"
    and "\<not> blank_field (req_form req) ''email''"
    and "storage_fault ev = None"
    and "\<not> messages_table (db st)"
  shows "snd (contact ev req st) =
           flash (TextWithError ''Error sending your message: ''
                    (OperationalError ''no such table: messages'')) ''danger'' st
         \<and> db (snd (contact ev req st)) = db st"
proof -
  from assms(2) obtain n where n: "req_form req ''name'' = Some n" "n \<noteq> []" "py_strip n \<noteq> []"
    using not_blank_fieldD by blast
  from assms(3) obtain m where m: "req_form req ''email'' = Some m" "m \<noteq> []" "py_strip m \<noteq> []"
    using not_blank_fieldD by blast
  show ?thesis
    using assms(1,4,5) n m
    by (simp add: contact_def Let_def stripped_field_def truthy_def opt_text_def
        insert_message_def dict_get_def db_flash)
qed

theorem contact_without_table_witness:
  "db (snd (contact \<lparr>now = ''2025-01-01T00:00:01'', storage_fault = None\<rparr>
         \<lparr>req_method = ''POST'',
          req_form = [''name'' \<mapsto> ''Bob'', ''email'' \<mapsto> ''bob@example.com'']\<rparr>
         (snd (contact \<lparr>now = ''2025-01-01T00:00:00'', storage_fault = None\<rparr>
            \<lparr>req_method = ''POST'',
             req_form = [''name'' \<mapsto> ''Ann'', ''email'' \<mapsto> ''ann@example.com'']\<rparr>
            \<lparr>db = startup empty_db, flashes = []\<rparr>)))) = empty_db
   \<and> messages empty_db = []
   \<and> map message_id (messages (db (snd
        (contact \<lparr>now = ''2025-01-01T00:00:01'', storage_fault = None\<rparr>
           \<lparr>req_method = ''POST'',
            req_form = [''name'' \<mapsto> ''Bob'', ''email'' \<mapsto> ''bob@example.com'']\<rparr>
           (snd (contact \<lparr>now = ''2025-01-01T00:00:00'', storage_fault = None\<rparr>
              \<lparr>req_method = ''POST'',
               req_form = [''name'' \<mapsto> ''Ann'', ''email'' \<mapsto> ''ann@example.com'']\<rparr>
              \<lparr>db = init_db empty_db, flashes = []\<rparr>)))))) = [1, 2]"
proof -
  let ?r1 = "\<lparr>req_method = ''POST'',
              req_form = [''name'' \<mapsto> ''Ann'', ''email'' \<mapsto> ''ann@example.com'']\<rparr>"
  let ?r2 = "\<lparr>req_method = ''POST'',
              req_form = [''name'' \<mapsto> ''Bob'', ''email'' \<mapsto> ''bob@example.com'']\<rparr>"
  let ?e1 = "\<lparr>now = ''2025-01-01T00:00:00'', storage_fault = None\<rparr>"
  let ?e2 = "\<lparr>now = ''2025-01-01T00:00:01'', storage_fault = None\<rparr>"
  let ?st = "\<lparr>db = startup empty_db, flashes = []\<rparr>"
  let ?ok = "\<lparr>db = init_db empty_db, flashes = []\<rparr>"
  have h1: "req_method ?r1 = ''POST''" and h2: "req_method ?r2 = ''POST''"
    by simp_all
  have h3: "\<not> blank_field (req_form ?r1) ''name''"
    and h4: "\<not> blank_field (req_form ?r1) ''email''"
    and h5: "\<not> blank_field (req_form ?r2) ''name''"
    and h6: "\<not> blank_field (req_form ?r2) ''email''"
    by (simp_all add: blank_field_def py_strip_def py_isspace_def)
  have h7: "storage_fault ?e1 = None" and h8: "storage_fault ?e2 = None"
    by simp_all
  have t0: "\<not> messages_table (db ?st)"
    by (simp add: startup_def empty_db_def)
  note s1 = contact_without_table [OF h1 h3 h4 h7 t0]
  then have d1: "db (snd (contact ?e1 ?r1 ?st)) = empty_db"
    by (simp add: startup_def db_flash)
  then have t1: "\<not> messages_table (db (snd (contact ?e1 ?r1 ?st)))"
    by (simp add: empty_db_def)
  note s2 = contact_without_table [OF h2 h5 h6 h8 t1]
  have a: "db (snd (contact ?e2 ?r2 (snd (contact ?e1 ?r1 ?st)))) = empty_db"
    by (simp only: conjunct2 [OF s2] d1)
  have b: "messages empty_db = []"
    by (simp add: empty_db_def)
  have n1: "next_rowid (map message_id (messages (db ?ok))) (messages_seq (db ?ok)) = Some 1"
    by (simp add: init_db_def empty_db_def next_rowid_def max_rowid_def)
  have k1: "messages_table (db ?ok)"
    by (simp add: init_db_def)
  from contact_post_valid [OF h1 h3 h4 h7 k1 n1]
  obtain m1 where m1: "messages (db (snd (contact ?e1 ?r1 ?ok))) = [m1]"
      "messages_seq (db (snd (contact ?e1 ?r1 ?ok))) = 1" "message_id m1 = 1"
    by (auto simp: init_db_def empty_db_def)
  have k2: "messages_table (db (snd (contact ?e1 ?r1 ?ok)))"
    using h7 by (simp add: contact_def Let_def db_flash insert_message_def init_db_def
        split: sum.splits option.splits)
  have n2: "next_rowid (map message_id (messages (db (snd (contact ?e1 ?r1 ?ok)))))
      (messages_seq (db (snd (contact ?e1 ?r1 ?ok)))) = Some 2"
    using m1 by (simp add: next_rowid_def max_rowid_def)
  from contact_post_valid [OF h2 h5 h6 h8 k2 n2] m1
  have c: "map message_id (messages (db (snd (contact ?e2 ?r2 (snd (contact ?e1 ?r1 ?ok)))))) =
      [1, 2]"
    by auto
  from a b c show ?thesis by simp
qed

section \<open>The events source and the JSON endpoint\<close>

lemma events_fallback:
  "\<not> file_exists \<or> (\<exists>e. loaded = Inl e) \<Longrightarrow> EVENTS file_exists loaded = DEFAULT_EVENTS"
  by (auto simp: EVENTS_def)

lemma default_events_three: "\<exists>evs. DEFAULT_EVENTS = JArr evs \<and> length evs = 3"
  by (simp add: DEFAULT_EVENTS_def)

lemma events_loaded: "EVENTS True (Inr v) = v"
  by (simp add: EVENTS_def)

text \<open>
  C5.  When the events file is absent (\<open>os.path.exists\<close> is false) or opening or parsing
  it raises, the load itself yields a value, namely the built-in default list, which has
  exactly three events, and \<open>/api/events\<close> answers with that list.
\<close>

theorem events_default_on_failure:
  assumes "\<not> file_exists \<or> (\<exists>e. loaded = Inl e)"
  shows "EVENTS file_exists loaded = DEFAULT_EVENTS
         \<and> (\<exists>evs. DEFAULT_EVENTS = JArr evs \<and> length evs = 3)
         \<and> api_events (EVENTS file_exists loaded) = JsonResponse DEFAULT_EVENTS"
  using events_fallback [OF assms] default_events_three by (simp add: api_events_def)

theorem events_default_on_failure_witness:
  "api_events (EVENTS True (Inl (ValueError ''{''))) = JsonResponse DEFAULT_EVENTS
   \<and> api_events (EVENTS False (Inr JNull)) = JsonResponse DEFAULT_EVENTS"
  using events_default_on_failure [of True "Inl (ValueError ''{'')"]
    events_default_on_failure [of False "Inr JNull"]
  by (simp add: api_events_def)

text \<open>
  C6.  When the events file exists and parses to a JSON array, that array is the events
  list and \<open>/api/events\<close> answers with it unchanged: same elements, same order, all of
  them.
\<close>

theorem api_events_verbatim:
  "EVENTS True (Inr (JArr evs)) = JArr evs
   \<and> api_events (EVENTS True (Inr (JArr evs))) = JsonResponse (JArr evs)"
  by (simp add: events_loaded api_events_def)

theorem api_events_verbatim_witness:
  "api_events (EVENTS True (Inr (JArr [JObj [(''title'', JStr ''B''), (''start'', JStr ''2026-02-01'')],
                                      JObj [(''title'', JStr ''A''), (''start'', JStr ''2026-01-01'')]])))
   = JsonResponse (JArr [JObj [(''title'', JStr ''B''), (''start'', JStr ''2026-02-01'')],
                         JObj [(''title'', JStr ''A''), (''start'', JStr ''2026-01-01'')]])"
  using api_events_verbatim
    [of "[JObj [(''title'', JStr ''B''), (''start'', JStr ''2026-02-01'')],
          JObj [(''title'', JStr ''A''), (''start'', JStr ''2026-01-01'')]]"]
  by (simp add: api_events_def)

text \<open>
  C9.  The loader does not look at what the parser returned: when the file exists and
  parses, the parsed value, whatever its shape, is the events list and is what
  \<open>/api/events\<close> serves.  The default list is used only when the file is absent or the
  load raised.
\<close>

theorem events_any_parsed_value:
  "EVENTS True (Inr v) = v
   \<and> api_events (EVENTS True (Inr v)) = JsonResponse v
   \<and> (EVENTS file_exists loaded = DEFAULT_EVENTS
        \<or> (file_exists \<and> loaded = Inr (EVENTS file_exists loaded)))"
  by (auto simp: EVENTS_def api_events_def split: sum.splits)

theorem events_any_parsed_value_witness:
  "api_events (EVENTS True (Inr (JObj [(''events'', JInt 7)]))) = JsonResponse (JObj [(''events'', JInt 7)])
   \<and> api_events (EVENTS True (Inr (JStr ''soon''))) = JsonResponse (JStr ''soon'')
   \<and> api_events (EVENTS True (Inr (JInt 42))) = JsonResponse (JInt 42)"
  using events_any_parsed_value [of "JObj [(''events'', JInt 7)]"]
    events_any_parsed_value [of "JStr ''soon''"]
    events_any_parsed_value [of "JInt 42"]
  by (simp add: api_events_def)

section \<open>The news preview\<close>

text \<open>
  C3.  The preview on the home page is the first three posts of \<open>SAMPLE_NEWS\<close> in list
  order, dated 2025-08-02, 2025-08-04 and 2023-12-27.  The three most recent posts by date
  are those of 2025-08-04, 2025-08-02 and 2024-12-16: the post of 2024-12-16, the last of
  the list, is missing from the preview although it is more recent than the post of
  2023-12-27 that is shown.
\<close>

theorem news_preview_first_three:
  "map date news_preview = [''2025-08-02'', ''2025-08-04'', ''2023-12-27'']
   \<and> map date (most_recent 3 SAMPLE_NEWS) = [''2025-08-04'', ''2025-08-02'', ''2024-12-16'']
   \<and> SAMPLE_NEWS ! 5 \<notin> set news_preview
   \<and> date (SAMPLE_NEWS ! 5) = ''2024-12-16''
   \<and> SAMPLE_NEWS ! 2 \<in> set news_preview
   \<and> date (SAMPLE_NEWS ! 2) < date (SAMPLE_NEWS ! 5)"
  by (simp add: news_preview_def most_recent_def SAMPLE_NEWS_def)

section \<open>The gallery pages: filter and order\<close>

lemma lower_char_eq_iff:
  assumes "(of_char d :: nat) < 128" and "\<not> ascii_upper d"
  shows "py_lower_char c = d \<longleftrightarrow> same_letter c d"
proof (cases "is_upper_letter c")
  case False
  then have "\<not> ascii_upper c"
    by (auto simp: is_upper_letter_def ascii_upper_def Let_def)
  with False show ?thesis
    by (simp add: py_lower_char_def same_letter_def)
next
  case True
  have e: "char_of ((of_char c :: nat) + 32) = d \<longleftrightarrow> ((of_char c :: nat) + 32) mod 256 = of_char d"
    by (simp add: char_of_eq_iff take_bit_eq_mod)
  have lt: "(of_char c :: nat) < 256" by simp
  show ?thesis
  proof (cases "ascii_upper c")
    case True
    then have "c \<noteq> d" using assms(2) by auto
    moreover have "((of_char c :: nat) + 32) mod 256 = of_char c + 32"
      using True by (simp add: ascii_upper_def Let_def)
    ultimately show ?thesis
      using True \<open>is_upper_letter c\<close> e by (simp add: py_lower_char_def same_letter_def)
  next
    case False
    with True have r: "192 \<le> (of_char c :: nat)" "(of_char c :: nat) \<le> 222"
      by (auto simp: is_upper_letter_def ascii_upper_def Let_def)
    then have "((of_char c :: nat) + 32) mod 256 = of_char c + 32" by simp
    with r assms(1) e have "char_of ((of_char c :: nat) + 32) \<noteq> d" by simp
    moreover have "c \<noteq> d" using r assms(1) by auto
    ultimately show ?thesis
      using True False by (simp add: py_lower_char_def same_letter_def)
  qed
qed

lemma map_lower_eq_iff:
  "\<forall>d\<in>set ext. (of_char d :: nat) < 128 \<and> \<not> ascii_upper d \<Longrightarrow>
     map py_lower_char xs = ext \<longleftrightarrow> list_all2 same_letter xs ext"
proof (induction xs arbitrary: ext)
  case Nil
  show ?case by auto
next
  case (Cons x xs)
  show ?case
  proof (cases ext)
    case Nil
    then show ?thesis by simp
  next
    case (Cons d ds)
    with Cons.prems have "py_lower_char x = d \<longleftrightarrow> same_letter x d"
      by (simp add: lower_char_eq_iff)
    moreover have "map py_lower_char xs = ds \<longleftrightarrow> list_all2 same_letter xs ds"
      using Cons.IH [of ds] Cons.prems Cons by simp
    ultimately show ?thesis using Cons by simp
  qed
qed

lemma endswith_lower_iff:
  assumes "\<forall>d\<in>set ext. (of_char d :: nat) < 128 \<and> \<not> ascii_upper d"
  shows "py_endswith (py_lower f) ext \<longleftrightarrow> ends_with_ci f ext"
  using map_lower_eq_iff [OF assms, of "drop (length f - length ext) f"]
  by (simp add: py_endswith_def ends_with_ci_def py_lower_def drop_map)

lemma is_image_iff:
  "is_image f \<longleftrightarrow>
     ends_with_ci f ''.png'' \<or> ends_with_ci f ''.jpg'' \<or> ends_with_ci f ''.jpeg''
     \<or> ends_with_ci f ''.gif''"
proof -
  have "py_endswith (py_lower f) ''.png'' \<longleftrightarrow> ends_with_ci f ''.png''"
    by (rule endswith_lower_iff) (simp add: ascii_upper_def)
  moreover have "py_endswith (py_lower f) ''.jpg'' \<longleftrightarrow> ends_with_ci f ''.jpg''"
    by (rule endswith_lower_iff) (simp add: ascii_upper_def)
  moreover have "py_endswith (py_lower f) ''.jpeg'' \<longleftrightarrow> ends_with_ci f ''.jpeg''"
    by (rule endswith_lower_iff) (simp add: ascii_upper_def)
  moreover have "py_endswith (py_lower f) ''.gif'' \<longleftrightarrow> ends_with_ci f ''.gif''"
    by (rule endswith_lower_iff) (simp add: ascii_upper_def)
  ultimately show ?thesis
    by (simp add: is_image_def image_exts_def)
qed

lemma gallery_files_error: "gallery_files (Inl e) = []"
  by (simp add: gallery_files_def)

lemma sorted_gallery_files: "sorted (gallery_files listing)"
  by (cases listing) (simp_all add: gallery_files_def)

lemma mset_gallery_files:
  "mset (gallery_files (Inr names)) = filter_mset is_image (mset names)"
  by (simp add: gallery_files_def)

lemma gallery_example: "gallery_files (Inr [''b.png'', ''a.jpg'', ''c.txt'']) = [''a.jpg'', ''b.png'']"
  by (simp add: gallery_files_def is_image_def image_exts_def py_endswith_def py_lower_def
      py_lower_char_def is_upper_letter_def)

lemma upper_before_lower:
  assumes "ascii_upper c" and "is_lower_letter d"
  shows "c # r < d # s"
  using assms by (auto simp add: ascii_upper_def is_lower_letter_def less_char_def Let_def)

lemma sorted_upper_first:
  assumes "sorted (fs :: string list)" and "i < length fs" and "j < length fs"
    and "fs ! i = c # r" and "ascii_upper c"
    and "fs ! j = d # s" and "is_lower_letter d"
  shows "i < j"
proof (rule ccontr)
  assume "\<not> i < j"
  then have "j \<le> i" by simp
  with assms(1,2) have "fs ! j \<le> fs ! i" by (simp add: sorted_nth_mono)
  moreover have "fs ! i < fs ! j"
    using upper_before_lower [OF assms(5,7)] assms(4,6) by simp
  ultimately show False by simp
qed

text \<open>
  C7.  For a directory that can be listed, a gallery handler keeps exactly the names that
  end, whatever the case of their letters, in .png, .jpg, .jpeg or .gif (each kept as often
  as it is listed), puts them in ascending lexicographic order and renders the page with
  the static URL of each, in that order.  A directory holding "b.png", "a.jpg" and "c.txt"
  gives the URLs of "a.jpg" and then "b.png".  When listing the directory raises, the page
  is rendered all the same, with no image.
\<close>

theorem gallery_listing:
  "sorted (gallery_files (Inr names))
   \<and> mset (gallery_files (Inr names)) =
       filter_mset (\<lambda>f. ends_with_ci f ''.png'' \<or> ends_with_ci f ''.jpg''
                        \<or> ends_with_ci f ''.jpeg'' \<or> ends_with_ci f ''.gif'') (mset names)
   \<and> veterans_gallery static_url (Inr names) =
       Render ''veterans.html''
         [(''title'', TText ''Veterans''),
          (''images'', TUrls (map (\<lambda>f. static_url (''images/veterans/'' @ f))
                                 (gallery_files (Inr names))))]
   \<and> juniors_gallery static_url (Inr names) =
       Render ''juniors.html''
         [(''title'', TText ''Juniors''),
          (''images'', TUrls (map (\<lambda>f. static_url (''images/juniors/'' @ f))
                                 (gallery_files (Inr names))))]
   \<and> seniors_gallery static_url (Inr names) =
       Render ''seniors.html''
         [(''title'', TText ''Seniors''),
          (''images'', TUrls (map (\<lambda>f. static_url (''images/seniors/'' @ f))
                                 (gallery_files (Inr names))))]
   \<and> veterans_gallery static_url (Inr [''b.png'', ''a.jpg'', ''c.txt'']) =
       Render ''veterans.html''
         [(''title'', TText ''Veterans''),
          (''images'', TUrls [static_url ''images/veterans/a.jpg'',
                              static_url ''images/veterans/b.png''])]
   \<and> gallery_files (Inl e) = []
   \<and> veterans_gallery static_url (Inl e) =
       Render ''veterans.html'' [(''title'', TText ''Veterans''), (''images'', TUrls [])]
   \<and> juniors_gallery static_url (Inl e) =
       Render ''juniors.html'' [(''title'', TText ''Juniors''), (''images'', TUrls [])]
   \<and> seniors_gallery static_url (Inl e) =
       Render ''seniors.html'' [(''title'', TText ''Seniors''), (''images'', TUrls [])]"
proof -
  have "(\<lambda>f. ends_with_ci f ''.png'' \<or> ends_with_ci f ''.jpg''
              \<or> ends_with_ci f ''.jpeg'' \<or> ends_with_ci f ''.gif'') = is_image"
    by (rule ext) (simp add: is_image_iff)
  then show ?thesis
    by (simp add: sorted_gallery_files mset_gallery_files gallery_example gallery_files_error
        veterans_gallery_def juniors_gallery_def seniors_gallery_def)
qed

theorem gallery_listing_witness:
  "veterans_gallery (\<lambda>p. ''/static/'' @ p)
     (Inr [''y.GIF'', ''b.PNG'', ''a.jpg'', ''notes.txt'', ''png'', ''x.JPG'', ''w.JpEg'']) =
     Render ''veterans.html''
       [(''title'', TText ''Veterans''),
        (''images'', TUrls [''/static/images/veterans/a.jpg'', ''/static/images/veterans/b.PNG'',
                            ''/static/images/veterans/w.JpEg'', ''/static/images/veterans/x.JPG'',
                            ''/static/images/veterans/y.GIF''])]
   \<and> ends_with_ci ''x.JPG'' ''.jpg'' \<and> ends_with_ci ''w.JpEg'' ''.jpeg''
   \<and> ends_with_ci ''y.GIF'' ''.gif'' \<and> ends_with_ci ''b.PNG'' ''.png''"
proof -
  let ?names = "[''y.GIF'', ''b.PNG'', ''a.jpg'', ''notes.txt'', ''png'', ''x.JPG'', ''w.JpEg'']"
  have "gallery_files (Inr ?names) = [''a.jpg'', ''b.PNG'', ''w.JpEg'', ''x.JPG'', ''y.GIF'']"
    by code_simp
  moreover have "ends_with_ci ''x.JPG'' ''.jpg'' \<and> ends_with_ci ''w.JpEg'' ''.jpeg''
      \<and> ends_with_ci ''y.GIF'' ''.gif'' \<and> ends_with_ci ''b.PNG'' ''.png''"
    by (simp add: ends_with_ci_def same_letter_def ascii_upper_def)
  ultimately show ?thesis
    using gallery_listing [of ?names "\<lambda>p. ''/static/'' @ p"] by simp
qed

text \<open>
  C10 as stated fails for capitals outside A to Z: the name that begins with the capital
  letter of code point 192 (upper case for \<open>str.lower\<close>, as used by the filter) is placed
  after "a.jpg".
\<close>

theorem gallery_upper_first_counterexample:
  "is_upper_letter (CHR 0xC0) \<and> is_lower_letter CHR ''a''
   \<and> gallery_files (Inr [CHR 0xC0 # ''.png'', ''a.jpg'']) = [''a.jpg'', CHR 0xC0 # ''.png'']"
  by (simp add: gallery_files_def is_image_def image_exts_def py_endswith_def py_lower_def
      py_lower_char_def is_upper_letter_def is_lower_letter_def)

text \<open>
  C10, amended.  The kept names are in plain code-point order, so in every listing a kept
  name that begins with one of the letters A to Z comes before every kept name that begins
  with a lower-case letter, accented or not.
\<close>

theorem gallery_ascii_upper_first:
  assumes "i < length (gallery_files listing)" and "j < length (gallery_files listing)"
    and "gallery_files listing ! i = c # r" and "ascii_upper c"
    and "gallery_files listing ! j = d # s" and "is_lower_letter d"
  shows "i < j"
  using sorted_upper_first [OF sorted_gallery_files assms] .

theorem gallery_ascii_upper_first_witness:
  "gallery_files (Inr [CHR 0xE0 # ''.png'', ''a.jpg'', ''Z.png'']) =
     [''Z.png'', ''a.jpg'', CHR 0xE0 # ''.png'']
   \<and> ascii_upper CHR ''Z'' \<and> is_lower_letter CHR ''a'' \<and> is_lower_letter (CHR 0xE0)
   \<and> (0::nat) < 1 \<and> (0::nat) < 2"
proof -
  let ?l = "Inr [CHR 0xE0 # ''.png'', ''a.jpg'', ''Z.png''] :: pyerr + string list"
  have g: "gallery_files ?l = [''Z.png'', ''a.jpg'', CHR 0xE0 # ''.png'']"
    by (simp add: gallery_files_def is_image_def image_exts_def py_endswith_def py_lower_def
        py_lower_char_def is_upper_letter_def)
  have u: "ascii_upper CHR ''Z''"
    and l: "is_lower_letter CHR ''a''" and l': "is_lower_letter (CHR 0xE0)"
    by (simp_all add: ascii_upper_def is_lower_letter_def)
  have "(0::nat) < 1"
    using gallery_ascii_upper_first [of 0 ?l 1 "CHR ''Z''" "''.png''" "CHR ''a''" "''.jpg''"] g u l
    by simp
  moreover have "(0::nat) < 2"
    using gallery_ascii_upper_first [of 0 ?l 2 "CHR ''Z''" "''.png''" "CHR 0xE0" "''.png''"] g u l'
    by simp
  ultimately show ?thesis using g u l l' by simp
qed

section \<open>The events preview of the home page\<close>






























end
